theory Spec2Isabelle
  imports Main "HOL-Library.Sublist"
begin

section \<open>Python values, exceptions and outcomes\<close>

text \<open>
  The classes of exception that decide a handler of \<^verbatim>\<open>database_agent.py\<close> or
  \<^verbatim>\<open>app.py\<close>. \<open>CancelledError\<close> and \<open>OtherBaseException\<close> (KeyboardInterrupt,
  SystemExit) derive from BaseException only, so \<^verbatim>\<open>except Exception\<close> lets them pass.
  \<open>AsyncioTimeoutError\<close> is \<^verbatim>\<open>asyncio.TimeoutError\<close>.
\<close>

datatype exn_class =
    TypeError
  | KeyError
  | AttributeError
  | AsyncioTimeoutError
  | OtherException
  | CancelledError
  | OtherBaseException

text \<open>An exception object: its class and the text \<^verbatim>\<open>str(e)\<close> gives.\<close>

datatype exn = Exn (cls: exn_class) (str_of: string)

definition is_Exception :: "exn \<Rightarrow> bool" where
  "is_Exception e = (cls e \<noteq> CancelledError \<and> cls e \<noteq> OtherBaseException)"

definition is_TypeError :: "exn \<Rightarrow> bool" where
  "is_TypeError e = (cls e = TypeError)"

definition is_TimeoutError :: "exn \<Rightarrow> bool" where
  "is_TimeoutError e = (cls e = AsyncioTimeoutError)"

text \<open>What a call gives back: a value, or a raised exception.\<close>

datatype 'a res = Ret 'a | Raise exn

text \<open>The values a turn of the history holds: a string, or None (a pending answer).\<close>

datatype pyval = PyStr string | PyNone

text \<open>\<^verbatim>\<open>f"{v}"\<close>\<close>

fun format_val :: "pyval \<Rightarrow> string" where
  "format_val (PyStr s) = s"
| "format_val PyNone = ''None''"

type_synonym turn = "string \<rightharpoonup> pyval"

text \<open>The dictionary a message is answered with, in insertion order.\<close>

type_synonym result = "(string \<times> string) list"

section \<open>Strings\<close>

text \<open>
  Strings are lists of 8-bit characters, so the model covers the code points below 256.
  \<open>isspace\<close> is \<^verbatim>\<open>str.isspace\<close> on one character of that range: tab to carriage
  return, the four separators 0x1C to 0x1F, space, NEL and the no-break space.
\<close>

definition isspace :: "char \<Rightarrow> bool" where
  "isspace c = (let n = (of_char c :: nat) in
     (9 \<le> n \<and> n \<le> 13) \<or> (28 \<le> n \<and> n \<le> 32) \<or> n = 133 \<or> n = 160)"

text \<open>\<^verbatim>\<open>s.strip()\<close>\<close>

definition strip :: "string \<Rightarrow> string" where
  "strip s = rev (dropWhile isspace (rev (dropWhile isspace s)))"

text \<open>\<^verbatim>\<open>sep.join(xs)\<close>\<close>

fun join :: "string \<Rightarrow> string list \<Rightarrow> string" where
  "join sep [] = []"
| "join sep [x] = x"
| "join sep (x # y # ys) = x @ sep @ join sep (y # ys)"

definition newline :: string where
  "newline = [CHR 0x0A]"

definition dquote :: string where
  "dquote = [CHR 0x22]"

definition squote :: string where
  "squote = [CHR 0x27]"

section \<open>The world outside the program\<close>

text \<open>
  A ClientSession object as \<open>cleanup\<close> sees it: whether it has an attribute
  \<^verbatim>\<open>close\<close>.
\<close>

datatype session_handle = SessionHandle (has_close: bool)

text \<open>
  Every call that leaves the repository (the environment, the model client, the agent
  library, the subprocess transport, the event loop) is answered by the world. Each is
  made at most once in an invocation, so one outcome each suffices; the two model calls
  answer as functions of their prompt, the two context managers' exits as functions of
  the exception in flight, \<^verbatim>\<open>asyncio.sleep\<close> as a function of its duration in
  milliseconds. An await that is cancelled answers \<open>Raise\<close> of a \<open>CancelledError\<close>;
  \<open>deadline_expired\<close> says that the cancellation came from the 30 second deadline of
  \<^verbatim>\<open>asyncio.wait_for\<close>.
\<close>

record world =
  environ :: "string \<rightharpoonup> string"
  openai_chat_model :: "unit res"
  openai_chat_model_name :: "unit res"
  openai_chat_positional :: "unit res"
  agent_plain :: "unit res"
  agent_with_tools :: "unit res"
  analyzer_arun :: "string \<Rightarrow> string option res"
  stdio_client_enter :: "unit res"
  stdio_client_exit :: "exn option \<Rightarrow> unit res"
  client_session_enter :: "session_handle res"
  client_session_exit :: "exn option \<Rightarrow> unit res"
  session_initialize :: "unit res"
  mcp_tools :: "unit res"
  mcp_tools_initialize :: "unit res"
  database_arun :: "string \<Rightarrow> string option res"
  session_close :: "unit res"
  sleep_outcome :: "nat \<Rightarrow> unit res"
  deadline_expired :: bool

text \<open>
  What an invocation does to the outside, in order. \<open>CleanupCalled\<close> marks the entry
  of \<^verbatim>\<open>DatabaseAgent.cleanup\<close>. The \<^verbatim>\<open>logger.info\<close> lines are left out; the
  error and warning lines are kept, without the traceback text.
\<close>

datatype event =
    AnalyzerArun string
  | StdioClientEnter string "string option list"
  | StdioClientExit
  | ClientSessionEnter
  | ClientSessionExit
  | SessionInitialize
  | McpToolsInitialize
  | DatabaseArun string
  | CleanupCalled
  | SessionClose
  | Sleep nat
  | LogError string
  | LogWarning string

section \<open>Program state\<close>

text \<open>\<^verbatim>\<open>class DatabaseAgent\<close>: both attributes start as None.\<close>

record DatabaseAgent =
  session :: "session_handle option"
  agent :: "unit option"

definition DatabaseAgent_init :: DatabaseAgent where
  "DatabaseAgent_init = \<lparr> session = None, agent = None \<rparr>"

text \<open>
  The state an invocation runs in: the events so far, the store of history lists (a
  history is passed by reference, so the argument is an address in this store), and the
  DatabaseAgent object of the invocation.
\<close>

record state =
  trace :: "event list"
  histories :: "nat \<Rightarrow> turn list"
  db_agent :: DatabaseAgent

type_synonym 'a prog = "state \<Rightarrow> 'a res \<times> state"

definition return :: "'a \<Rightarrow> 'a prog" where
  "return x = (\<lambda>s. (Ret x, s))"

definition raise :: "exn \<Rightarrow> 'a prog" where
  "raise e = (\<lambda>s. (Raise e, s))"

definition bind :: "'a prog \<Rightarrow> ('a \<Rightarrow> 'b prog) \<Rightarrow> 'b prog" where
  "bind m f = (\<lambda>s. case m s of
       (Ret x, s') \<Rightarrow> f x s'
     | (Raise e, s') \<Rightarrow> (Raise e, s'))"

text \<open>An outcome decided outside the program, with no event.\<close>

definition lift :: "'a res \<Rightarrow> 'a prog" where
  "lift r = (\<lambda>s. (r, s))"

definition emit :: "event \<Rightarrow> unit prog" where
  "emit ev = (\<lambda>s. (Ret (), s\<lparr>trace := trace s @ [ev]\<rparr>))"

text \<open>A call to the outside: the event is recorded, the world's outcome comes back.\<close>

definition call :: "event \<Rightarrow> 'a res \<Rightarrow> 'a prog" where
  "call ev r = (\<lambda>s. (r, s\<lparr>trace := trace s @ [ev]\<rparr>))"

text \<open>
  \<^verbatim>\<open>try: m except C1 as e: h1 e except C2 as e: h2 e\<close>: the first clause whose
  class matches handles the exception; what a handler raises is not handled here.
\<close>

fun handle :: "((exn \<Rightarrow> bool) \<times> (exn \<Rightarrow> 'a prog)) list \<Rightarrow> exn \<Rightarrow> 'a prog" where
  "handle [] e = raise e"
| "handle ((c, h) # hs) e = (if c e then h e else handle hs e)"

definition try_except :: "'a prog \<Rightarrow> ((exn \<Rightarrow> bool) \<times> (exn \<Rightarrow> 'a prog)) list \<Rightarrow> 'a prog" where
  "try_except m hs = (\<lambda>s. case m s of
       (Ret x, s') \<Rightarrow> (Ret x, s')
     | (Raise e, s') \<Rightarrow> handle hs e s')"

text \<open>
  \<^verbatim>\<open>try: m finally: fin\<close>: \<open>fin\<close> runs however \<open>m\<close> ends; when \<open>fin\<close> raises,
  its exception replaces the outcome of \<open>m\<close>, otherwise that outcome stands.
\<close>

definition try_finally :: "'a prog \<Rightarrow> unit prog \<Rightarrow> 'a prog" where
  "try_finally m fin = (\<lambda>s. case m s of (r, s') \<Rightarrow>
     (case fin s' of
        (Ret _, s'') \<Rightarrow> (r, s'')
      | (Raise e, s'') \<Rightarrow> (Raise e, s'')))"

text \<open>
  \<^verbatim>\<open>async with enter as x: body x\<close>: when entering raises, nothing else runs;
  otherwise the exit runs however the body ends and is told the exception in flight.
  An exit that raises replaces the outcome of the body. The two context managers used
  here (\<^verbatim>\<open>stdio_client\<close>, \<^verbatim>\<open>ClientSession\<close>) are taken not to swallow the
  exception of the body.
\<close>

definition async_with ::
    "'r prog \<Rightarrow> (exn option \<Rightarrow> unit prog) \<Rightarrow> ('r \<Rightarrow> 'a prog) \<Rightarrow> 'a prog" where
  "async_with enter exit_cm body = bind enter (\<lambda>x s. case body x s of
       (Ret v, s') \<Rightarrow>
         (case exit_cm None s' of
            (Ret _, s'') \<Rightarrow> (Ret v, s'')
          | (Raise e', s'') \<Rightarrow> (Raise e', s''))
     | (Raise e, s') \<Rightarrow>
         (case exit_cm (Some e) s' of
            (Ret _, s'') \<Rightarrow> (Raise e, s'')
          | (Raise e', s'') \<Rightarrow> (Raise e', s'')))"

text \<open>
  \<^verbatim>\<open>asyncio.wait_for(m, timeout=30.0)\<close>: when the deadline expires the inner task
  is cancelled, and a cancellation that comes out of it is turned into
  \<^verbatim>\<open>asyncio.TimeoutError\<close>; every other outcome of the inner task passes through.
\<close>

definition wait_for :: "world \<Rightarrow> 'a prog \<Rightarrow> 'a prog" where
  "wait_for w m = (\<lambda>s. case m s of
       (Ret x, s') \<Rightarrow> (Ret x, s')
     | (Raise e, s') \<Rightarrow>
         (if cls e = CancelledError \<and> deadline_expired w
          then (Raise (Exn AsyncioTimeoutError []), s')
          else (Raise e, s')))"

section \<open>database_agent.py\<close>

subsection \<open>DatabaseAgent.cleanup\<close>

text \<open>
  \<^verbatim>\<open>if self.session and hasattr(self.session, 'close'): await self.session.close()\<close>
\<close>

definition close_session :: "world \<Rightarrow> unit prog" where
  "close_session w = (\<lambda>s. case session (db_agent s) of
       None \<Rightarrow> (Ret (), s)
     | Some h \<Rightarrow> (if has_close h then call SessionClose (session_close w) s else (Ret (), s)))"

definition cleanup :: "world \<Rightarrow> unit prog" where
  "cleanup w = bind (emit CleanupCalled) (\<lambda>_.
     try_except
       (bind (close_session w) (\<lambda>_. call (Sleep 100) (sleep_outcome w 100)))
       [(is_Exception, \<lambda>e. emit (LogWarning (''Cleanup warning: '' @ str_of e)))])"

subsection \<open>The agent factories\<close>

text \<open>
  The three spellings of the model constructor, each tried when the one before raised
  TypeError.
\<close>

definition openai_model :: "world \<Rightarrow> unit prog" where
  "openai_model w =
     try_except (lift (openai_chat_model w))
       [(is_TypeError, \<lambda>_.
          try_except (lift (openai_chat_model_name w))
            [(is_TypeError, \<lambda>_. lift (openai_chat_positional w))])]"

definition create_symptom_analyzer :: "world \<Rightarrow> unit prog" where
  "create_symptom_analyzer w =
     try_except
       (bind (openai_model w) (\<lambda>_. lift (agent_plain w)))
       [(is_Exception, \<lambda>e.
          bind (emit (LogError (''Error creating symptom analyzer: '' @ str_of e)))
            (\<lambda>_. raise e))]"

definition create_database_agent :: "world \<Rightarrow> session_handle \<Rightarrow> unit prog" where
  "create_database_agent w sess =
     try_except
       (bind (lift (mcp_tools w)) (\<lambda>_.
        bind (call McpToolsInitialize (mcp_tools_initialize w)) (\<lambda>_.
        bind (openai_model w) (\<lambda>_.
        lift (agent_with_tools w)))))
       [(is_Exception, \<lambda>e.
          bind (emit (LogError (''Error creating database agent: '' @ str_of e)))
            (\<lambda>_. raise e))]"

subsection \<open>process_chat_message\<close>

definition required_variables :: "string list" where
  "required_variables = [''DB_HOST'', ''DB_USER'', ''DB_PASSWORD'', ''DB_NAME'']"

text \<open>\<^verbatim>\<open>not os.getenv(var)\<close>: the variable is unset or empty.\<close>

definition not_getenv :: "world \<Rightarrow> string \<Rightarrow> bool" where
  "not_getenv w var = (case environ w var of None \<Rightarrow> True | Some v \<Rightarrow> v = [])"

definition missing_variables :: "world \<Rightarrow> string list" where
  "missing_variables w = filter (not_getenv w) required_variables"

definition mk_result :: "string \<Rightarrow> string \<Rightarrow> result" where
  "mk_result r st = [(''response'', r), (''status'', st)]"

text \<open>
  \<^verbatim>\<open>f"User: {msg['user']}\nAssistant: {msg['assistant']}"\<close>; a missing key raises
  KeyError, whose text is the key in quotes.
\<close>

definition render_turn :: "turn \<Rightarrow> string res" where
  "render_turn msg = (case msg ''user'' of
       None \<Rightarrow> Raise (Exn KeyError (squote @ ''user'' @ squote))
     | Some u \<Rightarrow>
         (case msg ''assistant'' of
            None \<Rightarrow> Raise (Exn KeyError (squote @ ''assistant'' @ squote))
          | Some a \<Rightarrow>
              Ret (''User: '' @ format_val u @ newline @ ''Assistant: '' @ format_val a)))"

text \<open>The list comprehension over the history: the first failing turn ends it.\<close>

fun render_turns :: "turn list \<Rightarrow> string list res" where
  "render_turns [] = Ret []"
| "render_turns (msg # msgs) = (case render_turn msg of
       Raise e \<Rightarrow> Raise e
     | Ret l \<Rightarrow> (case render_turns msgs of Raise e \<Rightarrow> Raise e | Ret ls \<Rightarrow> Ret (l # ls)))"

definition history_prompt_of :: "nat \<Rightarrow> string prog" where
  "history_prompt_of conversation_history = (\<lambda>s.
     case render_turns (histories s conversation_history) of
       Raise e \<Rightarrow> (Raise e, s)
     | Ret ls \<Rightarrow> (Ret (join newline ls), s))"

definition symptom_prompt :: "string \<Rightarrow> string \<Rightarrow> string" where
  "symptom_prompt history_prompt user_message =
     newline @ ''    Conversation history:'' @ newline @
     ''    '' @ history_prompt @ newline @
     newline @
     ''    Current message: '' @ dquote @ user_message @ dquote @ newline @
     newline @
     ''    Analyze the symptoms and return a comma-separated list of specialties or a question if clarification is needed.'' @ newline @
     ''    ''"

definition db_prompt :: "string \<Rightarrow> string \<Rightarrow> string \<Rightarrow> string" where
  "db_prompt history_prompt user_message specialties =
     newline @ ''                Conversation history:'' @ newline @
     ''                '' @ history_prompt @ newline @
     newline @
     ''                Current message: '' @ dquote @ user_message @ dquote @ newline @
     newline @
     ''                Search for consultants with these specialties: '' @ specialties @ newline @
     ''                Use flexible matching for any of: '' @ specialties @ newline @
     ''                ''"

text \<open>
  \<^verbatim>\<open>response.content.strip()\<close>: the content of a run is a string or None, and None
  has no \<^verbatim>\<open>strip\<close>.
\<close>

definition content_strip :: "string option \<Rightarrow> string prog" where
  "content_strip content = (case content of
       None \<Rightarrow> raise (Exn AttributeError
                 (squote @ ''NoneType'' @ squote @ '' object has no attribute '' @ squote @ ''strip'' @ squote))
     | Some text \<Rightarrow> return (strip text))"

definition server_args :: "world \<Rightarrow> string option list" where
  "server_args w =
     [Some ''mcp-sql-server'',
      Some ''--db-host'', environ w ''DB_HOST'',
      Some ''--db-user'', environ w ''DB_USER'',
      Some ''--db-password'', environ w ''DB_PASSWORD'',
      Some ''--db-database'', environ w ''DB_NAME'']"

text \<open>\<^verbatim>\<open>db_agent.session = session\<close>\<close>

definition set_session :: "session_handle \<Rightarrow> unit prog" where
  "set_session sess = (\<lambda>s. (Ret (), s\<lparr>db_agent := (db_agent s)\<lparr>session := Some sess\<rparr>\<rparr>))"

text \<open>\<^verbatim>\<open>db_agent = DatabaseAgent()\<close>\<close>

definition new_db_agent :: "unit prog" where
  "new_db_agent = (\<lambda>s. (Ret (), s\<lparr>db_agent := DatabaseAgent_init\<rparr>))"

text \<open>The body of the two nested \<^verbatim>\<open>async with\<close> blocks.\<close>

definition query_round_trip ::
    "world \<Rightarrow> string \<Rightarrow> string \<Rightarrow> string \<Rightarrow> session_handle \<Rightarrow> result prog" where
  "query_round_trip w user_message history_prompt specialties sess =
     bind (set_session sess) (\<lambda>_.
     bind (call SessionInitialize (session_initialize w)) (\<lambda>_.
     bind (create_database_agent w sess) (\<lambda>_.
     bind (call (DatabaseArun (db_prompt history_prompt user_message specialties))
             (database_arun w (db_prompt history_prompt user_message specialties))) (\<lambda>content.
     bind (content_strip content) (\<lambda>text.
     return (mk_result text ''success''))))))"

text \<open>
  The block under \<^verbatim>\<open>try\<close>: the subprocess of the database tool is spawned, the
  session is opened over its two streams, the round trip runs inside both.
\<close>

definition session_scope :: "world \<Rightarrow> string \<Rightarrow> string \<Rightarrow> string \<Rightarrow> result prog" where
  "session_scope w user_message history_prompt specialties =
     async_with
       (call (StdioClientEnter ''uvx'' (server_args w)) (stdio_client_enter w))
       (\<lambda>ex. call StdioClientExit (stdio_client_exit w ex))
       (\<lambda>_. async_with
          (call ClientSessionEnter (client_session_enter w))
          (\<lambda>ex. call ClientSessionExit (client_session_exit w ex))
          (query_round_trip w user_message history_prompt specialties))"

text \<open>The clause \<^verbatim>\<open>except Exception as e\<close> of that block.\<close>

definition query_error :: "exn \<Rightarrow> result prog" where
  "query_error e =
     bind (emit (LogError (''Database query error: '' @ str_of e))) (\<lambda>_.
     return (mk_result (''Error: Unable to fetch consultants: '' @ str_of e) ''error''))"

text \<open>Step 2 of the function: from \<^verbatim>\<open>specialties = response_content\<close> to the end.\<close>

definition query_database :: "world \<Rightarrow> string \<Rightarrow> string \<Rightarrow> string \<Rightarrow> result prog" where
  "query_database w user_message history_prompt specialties =
     bind new_db_agent (\<lambda>_.
     try_finally
       (try_except
          (session_scope w user_message history_prompt specialties)
          [(is_Exception, query_error)])
       (bind (cleanup w) (\<lambda>_. call (Sleep 200) (sleep_outcome w 200))))"

definition process_chat_message :: "world \<Rightarrow> string \<Rightarrow> nat \<Rightarrow> result prog" where
  "process_chat_message w user_message conversation_history =
     (if missing_variables w \<noteq> [] then
        return (mk_result
          (''Error: Missing environment variables: '' @ join '', '' (missing_variables w))
          ''error'')
      else
        bind (create_symptom_analyzer w) (\<lambda>_.
        bind (history_prompt_of conversation_history) (\<lambda>history_prompt.
        bind (call (AnalyzerArun (symptom_prompt history_prompt user_message))
                (analyzer_arun w (symptom_prompt history_prompt user_message))) (\<lambda>content.
        bind (content_strip content) (\<lambda>response_content.
        if response_content = [] \<or> CHR ''?'' \<in> set response_content then
          return (mk_result
            (if response_content = [] then ''Could you describe your symptoms?''
             else response_content)
            ''clarification'')
        else
          query_database w user_message history_prompt response_content)))))"

section \<open>app.py\<close>

definition process_user_message_async :: "world \<Rightarrow> string \<Rightarrow> nat \<Rightarrow> result prog" where
  "process_user_message_async w user_message conversation_history =
     (if strip user_message = [] then
        return (mk_result ''Please enter a valid message.'' ''error'')
      else
        try_except
          (wait_for w (process_chat_message w user_message conversation_history))
          [(is_TimeoutError, \<lambda>_.
              return (mk_result
                ''Error: Database query timed out after 30 seconds. Please check if the database server is running.''
                ''error'')),
           (is_Exception, \<lambda>e.
              return (mk_result
                (''Error processing message: '' @ str_of e @ newline @
                 ''Please check if '' @ squote @ ''uvx mcp-sql-server'' @ squote @
                 '' is accessible and the database is running.'')
                ''error''))])"

section \<open>Notions the properties are stated with\<close>

text \<open>How often an event occurs in a trace.\<close>

definition count_event :: "event \<Rightarrow> event list \<Rightarrow> nat" where
  "count_event ev tr = length (filter (\<lambda>x. x = ev) tr)"

text \<open>An await that ends with an exception outside the Exception hierarchy.\<close>

definition interrupted :: "'a res \<Rightarrow> bool" where
  "interrupted r = (case r of Ret _ \<Rightarrow> False | Raise e \<Rightarrow> \<not> is_Exception e)"

text \<open>
  The classifier's answer to a message: the history as rendered into the prompt and the
  trimmed text of the model, when the credentials are there, the analyzer could be
  built, the history could be rendered and the model call returned a text.
\<close>

definition classifier_reply :: "world \<Rightarrow> string \<Rightarrow> nat \<Rightarrow> state \<Rightarrow> (string \<times> string) option" where
  "classifier_reply w user_message conversation_history s =
     (if missing_variables w \<noteq> [] then None
      else case fst (create_symptom_analyzer w s) of
          Raise _ \<Rightarrow> None
        | Ret _ \<Rightarrow>
           (case fst (history_prompt_of conversation_history s) of
              Raise _ \<Rightarrow> None
            | Ret history_prompt \<Rightarrow>
               (case analyzer_arun w (symptom_prompt history_prompt user_message) of
                  Ret (Some text) \<Rightarrow> Some (history_prompt, strip text)
                | _ \<Rightarrow> None)))"

text \<open>The state after the classifier was called with the prompt of a message.\<close>

definition classified_state :: "string \<Rightarrow> string \<Rightarrow> state \<Rightarrow> state" where
  "classified_state history_prompt user_message s =
     s\<lparr>trace := trace s @ [AnalyzerArun (symptom_prompt history_prompt user_message)]\<rparr>"

text \<open>The three values of the status field.\<close>

definition valid_status :: "result \<Rightarrow> bool" where
  "valid_status r = (map_of r ''status'' \<in> {Some ''success'', Some ''clarification'', Some ''error''})"



text \<open>
  One state extends another by events of a kind: the histories are the same and the
  trace has grown by events that satisfy \<open>Q\<close>.
\<close>

definition ext :: "(event \<Rightarrow> bool) \<Rightarrow> state \<Rightarrow> state \<Rightarrow> bool" where
  "ext Q s s' \<longleftrightarrow>
     histories s' = histories s \<and> (\<exists>evs. trace s' = trace s @ evs \<and> list_all Q evs)"

definition frame :: "(event \<Rightarrow> bool) \<Rightarrow> 'a prog \<Rightarrow> bool" where
  "frame Q m \<longleftrightarrow> (\<forall>s. ext Q s (snd (m s)))"

definition returns :: "('a \<Rightarrow> bool) \<Rightarrow> 'a prog \<Rightarrow> bool" where
  "returns P m \<longleftrightarrow> (\<forall>s x. fst (m s) = Ret x \<longrightarrow> P x)"


subsection \<open>Example worlds\<close>

definition env_ok :: "string \<rightharpoonup> string" where
  "env_ok = [''DB_HOST'' \<mapsto> ''localhost'', ''DB_USER'' \<mapsto> ''root'',
             ''DB_PASSWORD'' \<mapsto> ''secret'', ''DB_NAME'' \<mapsto> ''clinic'']"

text \<open>Every call succeeds; the session object has no \<^verbatim>\<open>close\<close>.\<close>

definition world_ok :: world where
  "world_ok = \<lparr>
      environ = env_ok,
      openai_chat_model = Ret (),
      openai_chat_model_name = Ret (),
      openai_chat_positional = Ret (),
      agent_plain = Ret (),
      agent_with_tools = Ret (),
      analyzer_arun = (\<lambda>_. Ret (Some ''Cardiologist, Cardiology '')),
      stdio_client_enter = Ret (),
      stdio_client_exit = (\<lambda>_. Ret ()),
      client_session_enter = Ret (SessionHandle False),
      client_session_exit = (\<lambda>_. Ret ()),
      session_initialize = Ret (),
      mcp_tools = Ret (),
      mcp_tools_initialize = Ret (),
      database_arun = (\<lambda>_. Ret (Some '' Found consultants: [Dr. Perera - Cardiology]'')),
      session_close = Ret (),
      sleep_outcome = (\<lambda>_. Ret ()),
      deadline_expired = False \<rparr>"

definition state0 :: state where
  "state0 = \<lparr> trace = [], histories = (\<lambda>_. []), db_agent = DatabaseAgent_init \<rparr>"

text \<open>\<^verbatim>\<open>DB_HOST\<close> is not set.\<close>

definition world_no_host :: world where
  "world_no_host = world_ok\<lparr>environ := env_ok(''DB_HOST'' := None)\<rparr>"

definition world_asks :: world where
  "world_asks = world_ok\<lparr>analyzer_arun :=
     (\<lambda>_. Ret (Some '' Could you describe any symptoms you are experiencing? ''))\<rparr>"

definition world_silent :: world where
  "world_silent = world_ok\<lparr>analyzer_arun := (\<lambda>_. Ret (Some ''  ''))\<rparr>"

definition world_classifier_fails :: world where
  "world_classifier_fails = world_ok\<lparr>analyzer_arun :=
     (\<lambda>_. Raise (Exn OtherException ''model unavailable''))\<rparr>"

definition world_close_fails :: world where
  "world_close_fails = world_ok\<lparr>session_close := Raise (Exn OtherException ''broken pipe'')\<rparr>"

definition world_close_cancelled :: world where
  "world_close_cancelled = world_ok\<lparr>session_close := Raise (Exn CancelledError [])\<rparr>"

definition state_open :: state where
  "state_open = state0\<lparr>db_agent := \<lparr> session = Some (SessionHandle True), agent = None \<rparr>\<rparr>"

text \<open>The events of the round trip inside the session.\<close>

definition round_trip_event :: "event \<Rightarrow> bool" where
  "round_trip_event ev = (case ev of
       SessionInitialize \<Rightarrow> True
     | McpToolsInitialize \<Rightarrow> True
     | DatabaseArun _ \<Rightarrow> True
     | LogError _ \<Rightarrow> True
     | _ \<Rightarrow> False)"

text \<open>The events of the block under \<^verbatim>\<open>try\<close> and of its handler.\<close>

definition scope_event :: "event \<Rightarrow> bool" where
  "scope_event ev = (case ev of
       StdioClientEnter _ _ \<Rightarrow> True
     | StdioClientExit \<Rightarrow> True
     | ClientSessionEnter \<Rightarrow> True
     | ClientSessionExit \<Rightarrow> True
     | _ \<Rightarrow> round_trip_event ev)"

definition world_query_fails :: world where
  "world_query_fails = world_ok\<lparr>database_arun :=
     (\<lambda>_. Raise (Exn OtherException ''connection reset''))\<rparr>"

definition world_query_cancelled :: world where
  "world_query_cancelled = world_ok\<lparr>database_arun := (\<lambda>_. Raise (Exn CancelledError []))\<rparr>"





section \<open>Running the combinators\<close>

lemma return_apply: "return x s = (Ret x, s)"
  by (simp add: return_def)

lemma raise_apply: "raise e s = (Raise e, s)"
  by (simp add: raise_def)

lemma lift_apply: "lift r s = (r, s)"
  by (simp add: lift_def)

lemma emit_apply: "emit ev s = (Ret (), s\<lparr>trace := trace s @ [ev]\<rparr>)"
  by (simp add: emit_def)

lemma call_apply: "call ev r s = (r, s\<lparr>trace := trace s @ [ev]\<rparr>)"
  by (simp add: call_def)

lemma bind_Ret: "m s = (Ret x, s') \<Longrightarrow> bind m f s = f x s'"
  by (simp add: bind_def)

lemma bind_Raise: "m s = (Raise e, s') \<Longrightarrow> bind m f s = (Raise e, s')"
  by (simp add: bind_def)

section \<open>Strings\<close>

lemma strip_blank: "(\<forall>c\<in>set s. isspace c) \<Longrightarrow> strip s = []"
  by (auto simp add: strip_def dest: set_dropWhileD)

lemma sublist_join: "x \<in> set xs \<Longrightarrow> sublist x (join sep xs)"
proof (induction sep xs rule: join.induct)
  case (1 sep)
  then show ?case by simp
next
  case (2 sep y)
  then show ?case by simp
next
  case (3 sep y z zs)
  show ?case
  proof (cases "x = y")
    case True
    then show ?thesis by simp
  next
    case False
    with 3 have "sublist x (join sep (z # zs))" by simp
    then obtain ps ss where "join sep (z # zs) = ps @ x @ ss"
      by (auto simp add: sublist_def)
    then have "join sep (y # z # zs) = (y @ sep @ ps) @ x @ ss" by simp
    then show ?thesis unfolding sublist_def by blast
  qed
qed

lemma sublist_prepend: "sublist x ys \<Longrightarrow> sublist x (zs @ ys)"
  by (metis sublist_append)

section \<open>The blank message\<close>

text \<open>
  Claim C8. A message that is empty or holds only whitespace is answered by
  \<open>process_user_message_async\<close> at once, with the status \<^verbatim>\<open>error\<close> and the
  text \<^verbatim>\<open>Please enter a valid message.\<close>; the state is the one it started in, so
  no model was called and no subprocess spawned. This holds for every history, the
  empty one among them.
\<close>

theorem blank_message_short_circuits:
  assumes "list_all isspace user_message"
  shows "process_user_message_async w user_message conversation_history s =
           (Ret [(''response'', ''Please enter a valid message.''), (''status'', ''error'')], s)"
  using assms
  by (simp add: process_user_message_async_def strip_blank list_all_iff return_def
      mk_result_def)

theorem blank_message_short_circuits_witness:
  "list_all isspace ''  '' \<and> histories state0 0 = [] \<and>
   process_user_message_async world_ok ''  '' 0 state0 =
     (Ret [(''response'', ''Please enter a valid message.''), (''status'', ''error'')], state0)"
proof -
  have h: "list_all isspace ''  ''" by (simp add: isspace_def)
  show ?thesis
    using h blank_message_short_circuits [OF h, of world_ok 0 state0]
    by (simp add: state0_def)
qed

section \<open>Missing credentials\<close>

text \<open>
  Claim C2. When one of the four required variables is absent from the environment,
  \<open>process_chat_message\<close> returns the status \<^verbatim>\<open>error\<close> with a text that lists
  the missing variables and so contains the name of the absent one. The state is the
  one it started in: the classifier was not called and no subprocess was spawned.
\<close>

theorem missing_credentials_error:
  assumes "var \<in> set required_variables" and "environ w var = None"
  shows "process_chat_message w user_message conversation_history s =
           (Ret [(''response'',
                  ''Error: Missing environment variables: '' @ join '', '' (missing_variables w)),
                 (''status'', ''error'')], s)
         \<and> sublist var
              (''Error: Missing environment variables: '' @ join '', '' (missing_variables w))"
proof -
  from assms have m: "var \<in> set (missing_variables w)"
    by (simp add: missing_variables_def not_getenv_def)
  then have ne: "missing_variables w \<noteq> []" by auto
  from m have "sublist var (join '', '' (missing_variables w))" by (rule sublist_join)
  then have "sublist var
      (''Error: Missing environment variables: '' @ join '', '' (missing_variables w))"
    by (rule sublist_prepend)
  with ne show ?thesis
    by (simp add: process_chat_message_def return_def mk_result_def)
qed

theorem missing_credentials_error_witness:
  "''DB_HOST'' \<in> set required_variables \<and> environ world_no_host ''DB_HOST'' = None \<and>
   process_chat_message world_no_host ''I have chest pain'' 0 state0 =
     (Ret [(''response'', ''Error: Missing environment variables: DB_HOST''),
           (''status'', ''error'')], state0)"
proof -
  have h1: "''DB_HOST'' \<in> set required_variables" by (simp add: required_variables_def)
  have h2: "environ world_no_host ''DB_HOST'' = None"
    by (simp add: world_no_host_def world_ok_def)
  have m: "missing_variables world_no_host = [''DB_HOST'']"
    by (simp add: missing_variables_def required_variables_def not_getenv_def
        world_no_host_def world_ok_def env_ok_def)
  show ?thesis
    using h1 h2 missing_credentials_error [OF h1 h2, of "''I have chest pain''" 0 state0]
    by (simp add: m)
qed

section \<open>The classification stage\<close>

lemma openai_model_state: "snd (openai_model w s) = s"
  by (simp add: openai_model_def try_except_def lift_def raise_def split: res.splits)

lemma create_symptom_analyzer_Ret:
  assumes "fst (create_symptom_analyzer w s) = Ret x"
  shows "create_symptom_analyzer w s = (Ret (), s)"
proof -
  obtain r where o: "openai_model w s = (r, s)"
    using openai_model_state[of w s] by (cases "openai_model w s") simp
  show ?thesis
    using assms o
    by (cases r; cases "agent_plain w")
      (auto simp add: create_symptom_analyzer_def try_except_def bind_def lift_def emit_def
        raise_def split: if_splits)
qed

lemma history_prompt_of_Ret:
  assumes "fst (history_prompt_of h s) = Ret hp"
  shows "history_prompt_of h s = (Ret hp, s)"
  using assms by (simp add: history_prompt_of_def split: res.splits)

lemma classifier_replyD:
  assumes "classifier_reply w user_message h s = Some (hp, t)"
  shows "missing_variables w = []"
    and "create_symptom_analyzer w s = (Ret (), s)"
    and "history_prompt_of h s = (Ret hp, s)"
    and "\<exists>text. analyzer_arun w (symptom_prompt hp user_message) = Ret (Some text) \<and> strip text = t"
proof -
  show m: "missing_variables w = []"
    using assms by (simp add: classifier_reply_def split: if_splits)
  from assms m obtain x where c: "fst (create_symptom_analyzer w s) = Ret x"
    by (cases "fst (create_symptom_analyzer w s)") (simp_all add: classifier_reply_def)
  then show "create_symptom_analyzer w s = (Ret (), s)" by (rule create_symptom_analyzer_Ret)
  from assms m c obtain hp' where p: "fst (history_prompt_of h s) = Ret hp'"
    by (cases "fst (history_prompt_of h s)") (simp_all add: classifier_reply_def)
  with assms m c have r: "(case analyzer_arun w (symptom_prompt hp' user_message) of
        Ret (Some text) \<Rightarrow> Some (hp', strip text) | _ \<Rightarrow> None) = Some (hp, t)"
    by (simp add: classifier_reply_def)
  then have e: "hp' = hp" by (simp split: res.splits option.splits)
  with p show "history_prompt_of h s = (Ret hp, s)" by (simp add: history_prompt_of_Ret)
  from r e
  show "\<exists>text. analyzer_arun w (symptom_prompt hp user_message) = Ret (Some text) \<and> strip text = t"
    by (simp split: res.splits option.splits)
qed

lemma process_chat_message_classified:
  assumes "classifier_reply w user_message h s = Some (hp, t)"
  shows "process_chat_message w user_message h s =
     (if t = [] \<or> CHR ''?'' \<in> set t
      then (Ret (mk_result (if t = [] then ''Could you describe your symptoms?'' else t)
                  ''clarification''),
            classified_state hp user_message s)
      else query_database w user_message hp t (classified_state hp user_message s))"
proof -
  note d = classifier_replyD[OF assms]
  from d(4) obtain reply where a: "analyzer_arun w (symptom_prompt hp user_message) = Ret (Some reply)"
    and t: "strip reply = t" by blast
  show ?thesis
    using d(1) t
    by (simp add: process_chat_message_def d(2) d(3) a
        bind_def call_def content_strip_def return_def classified_state_def)
qed

text \<open>
  Claim C3. When the classifier's text, trimmed, is empty or holds a question mark,
  \<open>process_chat_message\<close> returns the status \<^verbatim>\<open>clarification\<close> with that
  text, or with the default question when the text is empty. The only event of the
  invocation is the call of the classifier: no subprocess is spawned and no session is
  opened.
\<close>

theorem classifier_question_is_clarification:
  assumes "classifier_reply w user_message conversation_history s = Some (history_prompt, text)"
    and "text = [] \<or> CHR ''?'' \<in> set text"
  shows "process_chat_message w user_message conversation_history s =
           (Ret [(''response'',
                  if text = [] then ''Could you describe your symptoms?'' else text),
                 (''status'', ''clarification'')],
            s\<lparr>trace := trace s @ [AnalyzerArun (symptom_prompt history_prompt user_message)]\<rparr>)"
  using assms(2)
  by (simp add: process_chat_message_classified[OF assms(1)] mk_result_def classified_state_def)

lemmas world_ok_simps =
  world_ok_def env_ok_def state0_def missing_variables_def required_variables_def
  not_getenv_def

lemmas run_simps =
  bind_def return_def raise_def lift_def emit_def call_def try_except_def try_finally_def
  async_with_def wait_for_def

lemma classifier_reply_world_ok:
  assumes "environ w = env_ok" and "openai_chat_model w = Ret ()" and "agent_plain w = Ret ()"
    and "histories s h = []" and "analyzer_arun w (symptom_prompt [] user_message) = Ret (Some reply)"
  shows "classifier_reply w user_message h s = Some ([], strip reply)"
  using assms
  by (simp add: classifier_reply_def missing_variables_def required_variables_def
      not_getenv_def env_ok_def create_symptom_analyzer_def openai_model_def
      history_prompt_of_def run_simps)

theorem classifier_question_is_clarification_witness:
  "classifier_reply world_asks ''I feel unwell'' 0 state0 =
     Some ([], ''Could you describe any symptoms you are experiencing?'') \<and>
   process_chat_message world_asks ''I feel unwell'' 0 state0 =
     (Ret [(''response'', ''Could you describe any symptoms you are experiencing?''),
           (''status'', ''clarification'')],
      state0\<lparr>trace := [AnalyzerArun (symptom_prompt [] ''I feel unwell'')]\<rparr>) \<and>
   classifier_reply world_silent ''I feel unwell'' 0 state0 = Some ([], []) \<and>
   process_chat_message world_silent ''I feel unwell'' 0 state0 =
     (Ret [(''response'', ''Could you describe your symptoms?''),
           (''status'', ''clarification'')],
      state0\<lparr>trace := [AnalyzerArun (symptom_prompt [] ''I feel unwell'')]\<rparr>)"
proof -
  have a: "classifier_reply world_asks ''I feel unwell'' 0 state0 =
     Some ([], ''Could you describe any symptoms you are experiencing?'')"
    by (subst classifier_reply_world_ok[where reply = "'' Could you describe any symptoms you are experiencing? ''"])
      (simp_all add: world_asks_def world_ok_def state0_def strip_def isspace_def)
  have b: "classifier_reply world_silent ''I feel unwell'' 0 state0 = Some ([], [])"
    by (subst classifier_reply_world_ok[where reply = "''  ''"])
      (simp_all add: world_silent_def world_ok_def state0_def strip_def isspace_def)
  show ?thesis
    using a b classifier_question_is_clarification [OF a] classifier_question_is_clarification [OF b]
    by (simp add: state0_def)
qed

section \<open>A failing classifier\<close>

text \<open>
  The call of the classifier stands outside every \<^verbatim>\<open>try\<close> of
  \<open>process_chat_message\<close>: what it raises leaves the function.
\<close>

theorem classifier_failure_escapes_counterexample:
  "fst (process_chat_message world_classifier_fails ''I have chest pain'' 0 state0) =
     Raise (Exn OtherException ''model unavailable'')"
  by (simp add: process_chat_message_def world_classifier_fails_def world_ok_simps
      create_symptom_analyzer_def openai_model_def history_prompt_of_def run_simps)

text \<open>
  Claim C5, as amended. An exception of the Exception hierarchy raised by the model call
  of the classifier leaves \<open>process_chat_message\<close> as it is, after the one event of
  that call; in the hosted flow \<open>process_user_message_async\<close> catches it and returns
  the status \<^verbatim>\<open>error\<close> with a text that carries the text of the exception (or
  the time-out text when the exception is a time-out).
\<close>

theorem classifier_failure_caught_by_wrapper:
  assumes "missing_variables w = []"
    and "fst (create_symptom_analyzer w s) = Ret ()"
    and "fst (history_prompt_of conversation_history s) = Ret history_prompt"
    and "analyzer_arun w (symptom_prompt history_prompt user_message) = Raise e"
    and "is_Exception e"
    and "strip user_message \<noteq> []"
  shows "process_chat_message w user_message conversation_history s =
           (Raise e, s\<lparr>trace := trace s @
                        [AnalyzerArun (symptom_prompt history_prompt user_message)]\<rparr>)
         \<and> process_user_message_async w user_message conversation_history s =
           (Ret [(''response'',
                  if is_TimeoutError e
                  then ''Error: Database query timed out after 30 seconds. Please check if the database server is running.''
                  else ''Error processing message: '' @ str_of e @ newline @
                       ''Please check if '' @ squote @ ''uvx mcp-sql-server'' @ squote @
                       '' is accessible and the database is running.''),
                 (''status'', ''error'')],
            s\<lparr>trace := trace s @
                        [AnalyzerArun (symptom_prompt history_prompt user_message)]\<rparr>)"
proof -
  have p: "process_chat_message w user_message conversation_history s =
           (Raise e, s\<lparr>trace := trace s @
                        [AnalyzerArun (symptom_prompt history_prompt user_message)]\<rparr>)"
    using assms(1,4)
    by (simp add: process_chat_message_def create_symptom_analyzer_Ret[OF assms(2)]
        history_prompt_of_Ret[OF assms(3)] bind_def call_def)
  from assms(5) have c: "cls e \<noteq> CancelledError" by (simp add: is_Exception_def)
  show ?thesis
    using assms(5,6) c
    by (simp add: p process_user_message_async_def wait_for_def try_except_def return_def
        mk_result_def)
qed

theorem classifier_failure_caught_by_wrapper_witness:
  "missing_variables world_classifier_fails = [] \<and>
   fst (create_symptom_analyzer world_classifier_fails state0) = Ret () \<and>
   fst (history_prompt_of 0 state0) = Ret [] \<and>
   analyzer_arun world_classifier_fails (symptom_prompt [] ''I have chest pain'') =
     Raise (Exn OtherException ''model unavailable'') \<and>
   is_Exception (Exn OtherException ''model unavailable'') \<and>
   strip ''I have chest pain'' = ''I have chest pain'' \<and>
   fst (process_user_message_async world_classifier_fails ''I have chest pain'' 0 state0) =
     Ret [(''response'',
           ''Error processing message: model unavailable'' @ newline @
           ''Please check if '' @ squote @ ''uvx mcp-sql-server'' @ squote @
           '' is accessible and the database is running.''),
          (''status'', ''error'')]"
proof -
  have h1: "missing_variables world_classifier_fails = []"
    by (simp add: world_classifier_fails_def world_ok_simps)
  have h2: "fst (create_symptom_analyzer world_classifier_fails state0) = Ret ()"
    by (simp add: world_classifier_fails_def world_ok_simps create_symptom_analyzer_def
        openai_model_def run_simps)
  have h3: "fst (history_prompt_of 0 state0) = Ret []"
    by (simp add: history_prompt_of_def state0_def)
  have h4: "analyzer_arun world_classifier_fails (symptom_prompt [] ''I have chest pain'') =
     Raise (Exn OtherException ''model unavailable'')"
    by (simp add: world_classifier_fails_def world_ok_def)
  have h5: "is_Exception (Exn OtherException ''model unavailable'')"
    by (simp add: is_Exception_def)
  have h6: "strip ''I have chest pain'' = ''I have chest pain''"
    by (simp add: strip_def isspace_def)
  have h6': "strip ''I have chest pain'' \<noteq> []"
    by (simp add: h6)
  show ?thesis
    using h1 h2 h3 h4 h5 h6 classifier_failure_caught_by_wrapper [OF h1 h2 h3 h4 h5 h6']
    by (simp add: is_TimeoutError_def)
qed

section \<open>Teardown\<close>

text \<open>Every path through \<open>cleanup\<close>, spelled out.\<close>

lemma cleanup_cases:
  "cleanup w s =
     (let s1 = s\<lparr>trace := trace s @ [CleanupCalled]\<rparr>;
          closing = (case session (db_agent s) of None \<Rightarrow> False | Some h \<Rightarrow> has_close h);
          s2 = (if closing then s1\<lparr>trace := trace s1 @ [SessionClose]\<rparr> else s1)
      in case (if closing then session_close w else Ret ()) of
           Raise e \<Rightarrow>
             (if is_Exception e
              then (Ret (), s2\<lparr>trace := trace s2 @ [LogWarning (''Cleanup warning: '' @ str_of e)]\<rparr>)
              else (Raise e, s2))
         | Ret _ \<Rightarrow>
             (case sleep_outcome w 100 of
                Ret _ \<Rightarrow> (Ret (), s2\<lparr>trace := trace s2 @ [Sleep 100]\<rparr>)
              | Raise e \<Rightarrow>
                 (if is_Exception e
                  then (Ret (), s2\<lparr>trace := trace s2 @
                          [Sleep 100, LogWarning (''Cleanup warning: '' @ str_of e)]\<rparr>)
                  else (Raise e, s2\<lparr>trace := trace s2 @ [Sleep 100]\<rparr>))))"
  by (simp add: cleanup_def close_session_def run_simps Let_def
      split: option.splits res.splits)

text \<open>
  A cancellation that arrives while \<^verbatim>\<open>session.close()\<close> is awaited is not an
  Exception: \<open>cleanup\<close> raises it.
\<close>

theorem cleanup_cancelled_counterexample:
  "fst (cleanup world_close_cancelled state_open) = Raise (Exn CancelledError [])"
  by (simp add: cleanup_cases world_close_cancelled_def world_ok_def state_open_def state0_def
      is_Exception_def)

text \<open>
  Claim C9, as amended. When neither \<^verbatim>\<open>session.close()\<close> nor the drain sleep
  ends with an exception outside the Exception hierarchy, \<open>cleanup\<close> returns
  normally in every state of the DatabaseAgent (no session, a session, a session whose
  close raises), and it changes neither the histories nor the agent object: a failure
  of the close is logged as a warning only.
\<close>

theorem cleanup_catches_Exception:
  assumes "\<not> interrupted (session_close w)" and "\<not> interrupted (sleep_outcome w 100)"
  shows "fst (cleanup w s) = Ret () \<and>
         histories (snd (cleanup w s)) = histories s \<and>
         db_agent (snd (cleanup w s)) = db_agent s"
  using assms
  by (simp add: cleanup_cases interrupted_def Let_def split: option.splits res.splits)

theorem cleanup_catches_Exception_witness:
  "interrupted (session_close world_close_fails) = False \<and>
   interrupted (sleep_outcome world_close_fails 100) = False \<and>
   cleanup world_close_fails state_open =
     (Ret (), state_open\<lparr>trace :=
        [CleanupCalled, SessionClose, LogWarning ''Cleanup warning: broken pipe'']\<rparr>)"
proof -
  have h1: "\<not> interrupted (session_close world_close_fails)"
    by (simp add: interrupted_def world_close_fails_def world_ok_def is_Exception_def)
  have h2: "\<not> interrupted (sleep_outcome world_close_fails 100)"
    by (simp add: interrupted_def world_close_fails_def world_ok_def)
  have c: "snd (cleanup world_close_fails state_open) =
     state_open\<lparr>trace :=
        [CleanupCalled, SessionClose, LogWarning ''Cleanup warning: broken pipe'']\<rparr>"
    by (simp add: cleanup_cases world_close_fails_def world_ok_def state_open_def state0_def
      is_Exception_def)
  show ?thesis
    using h1 h2 c cleanup_catches_Exception [OF h1 h2, of state_open]
    by (simp add: prod_eq_iff)
qed

section \<open>Frames\<close>

lemma ext_refl: "ext Q s s"
  by (simp add: ext_def)

lemma ext_trans: "ext Q s t \<Longrightarrow> ext Q t u \<Longrightarrow> ext Q s u"
  by (auto simp add: ext_def)

lemma ext_event: "Q ev \<Longrightarrow> ext Q s (s\<lparr>trace := trace s @ [ev]\<rparr>)"
  by (simp add: ext_def)

lemma ext_db_agent: "ext Q s (s\<lparr>db_agent := a\<rparr>)"
  by (simp add: ext_def)

lemma ext_weaken: "ext Q s t \<Longrightarrow> (\<And>ev. Q ev \<Longrightarrow> Q' ev) \<Longrightarrow> ext Q' s t"
  by (auto simp add: ext_def list_all_iff)

lemma ext_count:
  assumes "ext Q s t" and "\<not> Q ev"
  shows "count_event ev (trace t) = count_event ev (trace s)"
proof -
  from assms(1) obtain evs where t: "trace t = trace s @ evs" and q: "list_all Q evs"
    by (auto simp add: ext_def)
  from q assms(2) have "filter (\<lambda>x. x = ev) evs = []"
    by (auto simp add: list_all_iff filter_empty_conv)
  with t show ?thesis by (simp add: count_event_def)
qed

lemma frameD: "frame Q m \<Longrightarrow> m s = (r, s') \<Longrightarrow> ext Q s s'"
  by (metis frame_def snd_conv)

lemma frame_snd: "frame Q m \<Longrightarrow> ext Q s (snd (m s))"
  by (simp add: frame_def)

lemma frame_weaken: "frame Q m \<Longrightarrow> (\<And>ev. Q ev \<Longrightarrow> Q' ev) \<Longrightarrow> frame Q' m"
  by (auto simp add: frame_def intro: ext_weaken)

lemma frame_return: "frame Q (return x)"
  by (simp add: frame_def return_def ext_refl)

lemma frame_raise: "frame Q (raise e)"
  by (simp add: frame_def raise_def ext_refl)

lemma frame_lift: "frame Q (lift r)"
  by (simp add: frame_def lift_def ext_refl)

lemma frame_emit: "Q ev \<Longrightarrow> frame Q (emit ev)"
  by (simp add: frame_def emit_def ext_event)

lemma frame_call: "Q ev \<Longrightarrow> frame Q (call ev r)"
  by (simp add: frame_def call_def ext_event)

lemma frame_bind:
  assumes "frame Q m" and "\<And>x. frame Q (f x)"
  shows "frame Q (bind m f)"
proof -
  have "ext Q s (snd (bind m f s))" for s
  proof (cases "m s")
    case (Pair r s1)
    then have e1: "ext Q s s1" using assms(1) by (rule frameD[rotated])
    show ?thesis
    proof (cases r)
      case (Ret x)
      have "ext Q s1 (snd (f x s1))" using assms(2) by (simp add: frame_def)
      with e1 Pair Ret show ?thesis by (auto simp add: bind_def intro: ext_trans)
    next
      case (Raise e)
      with e1 Pair show ?thesis by (simp add: bind_def)
    qed
  qed
  then show ?thesis by (simp add: frame_def)
qed

lemma frame_try_except:
  assumes "frame Q m" and "\<And>e. frame Q (handle hs e)"
  shows "frame Q (try_except m hs)"
proof -
  have "ext Q s (snd (try_except m hs s))" for s
  proof (cases "m s")
    case (Pair r s1)
    then have e1: "ext Q s s1" using assms(1) by (rule frameD[rotated])
    show ?thesis
    proof (cases r)
      case (Ret x)
      with e1 Pair show ?thesis by (simp add: try_except_def)
    next
      case (Raise e)
      have "ext Q s1 (snd (handle hs e s1))"
        using assms(2) by (simp add: frame_def)
      with e1 Pair Raise show ?thesis by (auto simp add: try_except_def intro: ext_trans)
    qed
  qed
  then show ?thesis by (simp add: frame_def)
qed

lemma frame_handle1:
  assumes "\<And>e. frame Q (h e)"
  shows "frame Q (handle [(c, h)] e)"
  using assms by (simp add: frame_raise)

lemma frame_handle2:
  assumes "\<And>e. frame Q (h e)" and "\<And>e. frame Q (h' e)"
  shows "frame Q (handle [(c, h), (c', h')] e)"
  using assms by (simp add: frame_raise)

lemma frame_try_finally:
  assumes "frame Q m" and "frame Q fin"
  shows "frame Q (try_finally m fin)"
proof -
  have "ext Q s (snd (try_finally m fin s))" for s
  proof (cases "m s")
    case (Pair r s1)
    then have e1: "ext Q s s1" using assms(1) by (rule frameD[rotated])
    obtain r2 s2 where f: "fin s1 = (r2, s2)" by (cases "fin s1")
    then have e2: "ext Q s1 s2" using assms(2) by (rule frameD[rotated])
    from e1 e2 have "ext Q s s2" by (rule ext_trans)
    with Pair f show ?thesis by (cases r2) (simp_all add: try_finally_def)
  qed
  then show ?thesis by (simp add: frame_def)
qed

lemma frame_exit_after:
  assumes "frame Q body" and "\<And>ex. frame Q (exit_cm ex)"
  shows "frame Q (\<lambda>s. case body s of
       (Ret v, s') \<Rightarrow>
         (case exit_cm None s' of
            (Ret _, s'') \<Rightarrow> (Ret v, s'')
          | (Raise e', s'') \<Rightarrow> (Raise e', s''))
     | (Raise e, s') \<Rightarrow>
         (case exit_cm (Some e) s' of
            (Ret _, s'') \<Rightarrow> (Raise e, s'')
          | (Raise e', s'') \<Rightarrow> (Raise e', s'')))"
proof -
  have "ext Q s (snd (case body s of
       (Ret v, s') \<Rightarrow>
         (case exit_cm None s' of
            (Ret _, s'') \<Rightarrow> (Ret v, s'')
          | (Raise e', s'') \<Rightarrow> (Raise e', s''))
     | (Raise e, s') \<Rightarrow>
         (case exit_cm (Some e) s' of
            (Ret _, s'') \<Rightarrow> (Raise e, s'')
          | (Raise e', s'') \<Rightarrow> (Raise e', s'')))) " for s
  proof (cases "body s")
    case (Pair r s1)
    then have e1: "ext Q s s1" using assms(1) by (rule frameD[rotated])
    have e2: "ext Q s1 (snd (exit_cm ex s1))" for ex
      using assms(2) by (simp add: frame_def)
    show ?thesis
    proof (cases r)
      case (Ret v)
      with Pair e1 e2[of None] show ?thesis
        by (auto split: prod.splits res.splits intro: ext_trans)
    next
      case (Raise e)
      with Pair e1 e2[of "Some e"] show ?thesis
        by (auto split: prod.splits res.splits intro: ext_trans)
    qed
  qed
  then show ?thesis by (simp add: frame_def)
qed

lemma frame_async_with:
  assumes "frame Q enter" and "\<And>ex. frame Q (exit_cm ex)" and "\<And>x. frame Q (body x)"
  shows "frame Q (async_with enter exit_cm body)"
  unfolding async_with_def
  by (rule frame_bind[OF assms(1)]) (rule frame_exit_after[OF assms(3) assms(2)])

lemma frame_wait_for: "frame Q m \<Longrightarrow> frame Q (wait_for w m)"
  by (auto simp add: frame_def wait_for_def split: prod.splits res.splits
      dest: frameD[unfolded frame_def])

subsection \<open>The frames of the program\<close>

lemma frame_openai_model: "frame Q (openai_model w)"
  unfolding openai_model_def
  by (intro frame_try_except frame_handle1 frame_lift)

lemma frame_create_symptom_analyzer:
  "(\<And>t. Q (LogError t)) \<Longrightarrow> frame Q (create_symptom_analyzer w)"
  unfolding create_symptom_analyzer_def
  by (intro frame_try_except frame_handle1 frame_bind frame_lift frame_openai_model
      frame_emit frame_raise)

lemma frame_create_database_agent: "frame round_trip_event (create_database_agent w sess)"
  unfolding create_database_agent_def
  by (intro frame_try_except frame_handle1 frame_bind frame_lift frame_openai_model
      frame_emit frame_raise frame_call) (simp_all add: round_trip_event_def)

lemma frame_history_prompt_of: "frame Q (history_prompt_of h)"
  by (simp add: frame_def history_prompt_of_def ext_refl split: res.splits)

lemma frame_content_strip: "frame Q (content_strip c)"
  by (cases c) (simp_all add: content_strip_def frame_raise frame_return)

lemma frame_set_session: "frame Q (set_session sess)"
  by (simp add: frame_def set_session_def ext_db_agent)

lemma frame_new_db_agent: "frame Q new_db_agent"
  by (simp add: frame_def new_db_agent_def ext_db_agent)

lemma frame_query_round_trip:
  "frame round_trip_event (query_round_trip w user_message hp sp sess)"
  unfolding query_round_trip_def
  by (intro frame_bind frame_set_session frame_call frame_create_database_agent
      frame_content_strip frame_return) (simp_all add: round_trip_event_def)

lemma frame_session_scope: "frame scope_event (session_scope w user_message hp sp)"
  unfolding session_scope_def
  by (intro frame_async_with frame_call
      frame_weaken[OF frame_query_round_trip, of scope_event])
    (auto simp add: scope_event_def round_trip_event_def split: event.splits)

lemma frame_query_error: "frame scope_event (query_error e)"
  unfolding query_error_def
  by (intro frame_bind frame_emit frame_return)
    (simp add: scope_event_def round_trip_event_def)

lemma frame_guarded_scope:
  "frame scope_event
     (try_except (session_scope w user_message hp sp) [(is_Exception, query_error)])"
  by (intro frame_try_except frame_handle1 frame_session_scope frame_query_error)

lemma frame_close_session: "Q SessionClose \<Longrightarrow> frame Q (close_session w)"
  by (simp add: frame_def close_session_def call_def ext_event ext_refl split: option.splits)

lemma frame_cleanup: "frame (\<lambda>_. True) (cleanup w)"
  unfolding cleanup_def
  by (intro frame_bind frame_emit frame_try_except frame_handle1 frame_close_session
      frame_call) simp_all

lemma frame_query_database: "frame (\<lambda>_. True) (query_database w user_message hp sp)"
  unfolding query_database_def
  by (intro frame_bind frame_new_db_agent frame_try_finally frame_cleanup frame_call
      frame_weaken[OF frame_guarded_scope]) simp_all

lemma frame_process_chat_message:
  "frame (\<lambda>_. True) (process_chat_message w user_message conversation_history)"
proof (cases "missing_variables w = []")
  case False
  then show ?thesis by (simp add: process_chat_message_def frame_return)
next
  case True
  have "frame (\<lambda>_. True)
     (if response_content = [] \<or> CHR ''?'' \<in> set response_content then
          return (mk_result
            (if response_content = [] then ''Could you describe your symptoms?''
             else response_content)
            ''clarification'')
        else
          query_database w user_message history_prompt response_content)"
    for response_content history_prompt
    by (simp add: frame_return frame_query_database)
  with True show ?thesis
    unfolding process_chat_message_def
    by (simp only: if_False not_True_eq_False simp_thms)
      (intro frame_bind frame_create_symptom_analyzer frame_history_prompt_of frame_call
        frame_content_strip TrueI)
qed

section \<open>The history is only read\<close>

text \<open>
  Claim C10. \<open>process_chat_message\<close> leaves the store of histories as it found it,
  however it ends (the error for missing credentials, a clarification, a query that
  succeeds or fails, an exception that leaves the function): the list it was given and
  every turn in it are unchanged.
\<close>

theorem history_unchanged:
  "histories (snd (process_chat_message w user_message conversation_history s)) = histories s"
  using frame_snd[OF frame_process_chat_message] by (simp add: ext_def)

section \<open>Teardown runs once\<close>

lemma count_event_Nil: "count_event x [] = 0"
  by (simp add: count_event_def)

lemma count_event_Cons:
  "count_event x (ev # tr) = (if ev = x then 1 else 0) + count_event x tr"
  by (simp add: count_event_def)

lemma count_event_append:
  "count_event x (tr @ tr') = count_event x tr + count_event x tr'"
  by (simp add: count_event_def)

lemmas count_event_simps = count_event_Nil count_event_Cons count_event_append

lemma snd_try_finally: "snd (try_finally m fin s) = snd (fin (snd (m s)))"
  by (simp add: try_finally_def split: prod.splits res.splits)

lemma cleanup_count_CleanupCalled:
  "count_event CleanupCalled (trace (snd (cleanup w s))) =
     count_event CleanupCalled (trace s) + 1"
  by (simp add: cleanup_cases Let_def count_event_simps count_event_def
      split: option.splits res.splits)

lemma cleanup_count_ClientSessionExit:
  "count_event ClientSessionExit (trace (snd (cleanup w s))) =
     count_event ClientSessionExit (trace s)"
  by (simp add: cleanup_cases Let_def count_event_def split: option.splits res.splits)

lemma cleanup_count_SessionClose:
  "count_event SessionClose (trace (snd (cleanup w s))) \<le>
     count_event SessionClose (trace s) + 1"
  by (simp add: cleanup_cases Let_def count_event_def split: option.splits res.splits)

lemma finally_count:
  assumes "x \<noteq> Sleep 200"
  shows "count_event x (trace (snd (bind (cleanup w) (\<lambda>_. call (Sleep 200) r) s))) =
     count_event x (trace (snd (cleanup w s)))"
  using assms
  by (cases "cleanup w s") (simp add: bind_def call_def count_event_simps split: res.splits)

lemma guarded_scope_count:
  assumes "\<not> scope_event x"
  shows "count_event x
       (trace (snd (try_except (session_scope w user_message hp sp)
                      [(is_Exception, query_error)] s))) =
     count_event x (trace s)"
  using frame_snd[OF frame_guarded_scope] assms by (rule ext_count)

lemma async_with_call_state:
  "snd (async_with (call ev r) (\<lambda>ex. call ev' (x ex)) body s) =
     (case r of
        Raise e \<Rightarrow> s\<lparr>trace := trace s @ [ev]\<rparr>
      | Ret v \<Rightarrow>
          (snd (body v (s\<lparr>trace := trace s @ [ev]\<rparr>)))
            \<lparr>trace := trace (snd (body v (s\<lparr>trace := trace s @ [ev]\<rparr>))) @ [ev']\<rparr>)"
  by (simp add: async_with_def bind_def call_def split: res.splits prod.splits)

lemma round_trip_count:
  assumes "\<not> round_trip_event x"
  shows "count_event x (trace (snd (query_round_trip w user_message hp sp sess s))) =
     count_event x (trace s)"
  using frame_snd[OF frame_query_round_trip] assms by (rule ext_count)

lemma session_scope_count_ClientSessionExit:
  "count_event ClientSessionExit (trace (snd (session_scope w user_message hp sp s))) =
     count_event ClientSessionExit (trace s) +
       (case (stdio_client_enter w, client_session_enter w) of
          (Ret _, Ret _) \<Rightarrow> 1
        | _ \<Rightarrow> 0)"
  by (simp add: session_scope_def async_with_call_state count_event_simps round_trip_count
      round_trip_event_def split: res.splits)

lemma handler_count:
  assumes "\<And>t. x \<noteq> LogError t"
  shows "count_event x (trace (snd (try_except m [(c, query_error)] s))) =
     count_event x (trace (snd (m s)))"
  using assms
  by (cases "m s")
    (auto simp add: try_except_def query_error_def bind_def emit_def return_def raise_def
      count_event_simps split: res.splits)

lemma query_database_state:
  "snd (query_database w user_message hp sp s) =
     snd (bind (cleanup w) (\<lambda>_. call (Sleep 200) (sleep_outcome w 200))
       (snd (try_except (session_scope w user_message hp sp) [(is_Exception, query_error)]
          (s\<lparr>db_agent := DatabaseAgent_init\<rparr>))))"
  by (simp add: query_database_def bind_def new_db_agent_def snd_try_finally)

text \<open>
  Claim C1. When the classifier gave a non-empty text without a question mark, the
  invocation enters \<open>cleanup\<close> exactly once before it ends, however the session scope
  ends (a result, an exception of the round trip, a cancellation). The exit of the
  ClientSession context runs exactly once when that context was entered (the subprocess
  was spawned and the session opened) and not at all otherwise, and
  \<^verbatim>\<open>session.close()\<close> is called at most once.
\<close>

theorem teardown_exactly_once:
  assumes "classifier_reply w user_message conversation_history s = Some (history_prompt, specialties)"
    and "specialties \<noteq> []" and "CHR ''?'' \<notin> set specialties"
  shows "count_event CleanupCalled
           (trace (snd (process_chat_message w user_message conversation_history s))) =
         count_event CleanupCalled (trace s) + 1
       \<and> count_event ClientSessionExit
           (trace (snd (process_chat_message w user_message conversation_history s))) =
         count_event ClientSessionExit (trace s) +
           (case (stdio_client_enter w, client_session_enter w) of
              (Ret _, Ret _) \<Rightarrow> 1
            | _ \<Rightarrow> 0)
       \<and> count_event SessionClose
           (trace (snd (process_chat_message w user_message conversation_history s))) \<le>
         count_event SessionClose (trace s) + 1"
proof -
  let ?s1 = "(classified_state history_prompt user_message s)\<lparr>db_agent := DatabaseAgent_init\<rparr>"
  let ?s2 = "snd (try_except (session_scope w user_message history_prompt specialties)
                    [(is_Exception, query_error)] ?s1)"
  have p: "snd (process_chat_message w user_message conversation_history s) =
      snd (bind (cleanup w) (\<lambda>_. call (Sleep 200) (sleep_outcome w 200)) ?s2)"
    using assms(2,3)
    by (simp add: process_chat_message_classified[OF assms(1)] query_database_state)
  have c1: "count_event x (trace (classified_state history_prompt user_message s)) =
      count_event x (trace s)"
    if "\<And>t. x \<noteq> AnalyzerArun t" for x
    using that by (auto simp add: classified_state_def count_event_simps)
  have a: "count_event CleanupCalled (trace ?s2) = count_event CleanupCalled (trace s)"
    by (simp add: guarded_scope_count scope_event_def round_trip_event_def c1)
  have b: "count_event ClientSessionExit (trace ?s2) =
      count_event ClientSessionExit (trace s) +
        (case (stdio_client_enter w, client_session_enter w) of
           (Ret _, Ret _) \<Rightarrow> 1
         | _ \<Rightarrow> 0)"
    by (simp add: handler_count session_scope_count_ClientSessionExit c1)
  have c: "count_event SessionClose (trace ?s2) = count_event SessionClose (trace s)"
    by (simp add: guarded_scope_count scope_event_def round_trip_event_def c1)
  show ?thesis
    using cleanup_count_SessionClose[of w ?s2]
    by (simp add: p finally_count cleanup_count_CleanupCalled cleanup_count_ClientSessionExit
        a b c)
qed

lemma strip_specialties: "strip ''Cardiologist, Cardiology '' = ''Cardiologist, Cardiology''"
  by (simp add: strip_def isspace_def)

lemma classifier_reply_specialties:
  assumes "environ w = env_ok" and "openai_chat_model w = Ret ()" and "agent_plain w = Ret ()"
    and "analyzer_arun w = (\<lambda>_. Ret (Some ''Cardiologist, Cardiology ''))"
  shows "classifier_reply w user_message 0 state0 = Some ([], ''Cardiologist, Cardiology'')"
  using classifier_reply_world_ok[of w state0 0 user_message "''Cardiologist, Cardiology ''"] assms
  by (simp add: strip_specialties state0_def)

theorem teardown_exactly_once_witness:
  "classifier_reply world_ok ''I have chest pain'' 0 state0 =
     Some ([], ''Cardiologist, Cardiology'') \<and>
   count_event CleanupCalled
     (trace (snd (process_chat_message world_ok ''I have chest pain'' 0 state0))) = 1 \<and>
   count_event ClientSessionExit
     (trace (snd (process_chat_message world_ok ''I have chest pain'' 0 state0))) = 1 \<and>
   classifier_reply world_query_fails ''I have chest pain'' 0 state0 =
     Some ([], ''Cardiologist, Cardiology'') \<and>
   count_event CleanupCalled
     (trace (snd (process_chat_message world_query_fails ''I have chest pain'' 0 state0))) = 1 \<and>
   count_event ClientSessionExit
     (trace (snd (process_chat_message world_query_fails ''I have chest pain'' 0 state0))) = 1 \<and>
   classifier_reply world_query_cancelled ''I have chest pain'' 0 state0 =
     Some ([], ''Cardiologist, Cardiology'') \<and>
   count_event CleanupCalled
     (trace (snd (process_chat_message world_query_cancelled ''I have chest pain'' 0 state0))) = 1 \<and>
   count_event ClientSessionExit
     (trace (snd (process_chat_message world_query_cancelled ''I have chest pain'' 0 state0))) = 1"
proof -
  have n: "''Cardiologist, Cardiology'' \<noteq> []" by simp
  have q: "CHR ''?'' \<notin> set ''Cardiologist, Cardiology''" by simp
  have a: "classifier_reply world_ok ''I have chest pain'' 0 state0 =
     Some ([], ''Cardiologist, Cardiology'')"
    by (rule classifier_reply_specialties) (simp_all add: world_ok_def)
  have b: "classifier_reply world_query_fails ''I have chest pain'' 0 state0 =
     Some ([], ''Cardiologist, Cardiology'')"
    by (rule classifier_reply_specialties) (simp_all add: world_query_fails_def world_ok_def)
  have c: "classifier_reply world_query_cancelled ''I have chest pain'' 0 state0 =
     Some ([], ''Cardiologist, Cardiology'')"
    by (rule classifier_reply_specialties) (simp_all add: world_query_cancelled_def world_ok_def)
  have t: "count_event CleanupCalled (trace state0) = 0"
    "count_event ClientSessionExit (trace state0) = 0"
    by (simp_all add: state0_def count_event_def)
  have e: "stdio_client_enter world_ok = Ret ()"
    "client_session_enter world_ok = Ret (SessionHandle False)"
    "stdio_client_enter world_query_fails = Ret ()"
    "client_session_enter world_query_fails = Ret (SessionHandle False)"
    "stdio_client_enter world_query_cancelled = Ret ()"
    "client_session_enter world_query_cancelled = Ret (SessionHandle False)"
    by (simp_all add: world_ok_def world_query_fails_def world_query_cancelled_def)
  show ?thesis
    using a b c teardown_exactly_once [OF a n q] teardown_exactly_once [OF b n q]
      teardown_exactly_once [OF c n q]
    by (simp add: t e)
qed

section \<open>What is returned\<close>

lemma returnsD: "returns P m \<Longrightarrow> fst (m s) = Ret x \<Longrightarrow> P x"
  by (simp add: returns_def)

lemma returns_return: "P x \<Longrightarrow> returns P (return x)"
  by (simp add: returns_def return_def)

lemma returns_raise: "returns P (raise e)"
  by (simp add: returns_def raise_def)

lemma returns_bind:
  assumes "\<And>x. returns P (f x)"
  shows "returns P (bind m f)"
proof -
  have "P y" if "fst (bind m f s) = Ret y" for s y
  proof (cases "m s")
    case (Pair r s1)
    with that show ?thesis
      by (cases r) (auto simp add: bind_def dest: returnsD[OF assms])
  qed
  then show ?thesis by (simp add: returns_def)
qed

lemma returns_bind_call:
  assumes "\<And>x. r = Ret x \<Longrightarrow> returns P (f x)"
  shows "returns P (bind (call ev r) f)"
proof -
  have "P y" if "fst (bind (call ev r) f s) = Ret y" for s y
    using that by (cases r) (auto simp add: bind_def call_def dest: returnsD[OF assms])
  then show ?thesis by (simp add: returns_def)
qed

lemma returns_bind_content_strip:
  assumes "\<And>reply. content = Some reply \<Longrightarrow> returns P (f (strip reply))"
  shows "returns P (bind (content_strip content) f)"
proof -
  have "P y" if "fst (bind (content_strip content) f s) = Ret y" for s y
    using that
    by (cases content)
      (auto simp add: bind_def content_strip_def return_def raise_def dest: returnsD[OF assms])
  then show ?thesis by (simp add: returns_def)
qed

lemma returns_try_except:
  assumes "returns P m" and "\<And>e. returns P (handle hs e)"
  shows "returns P (try_except m hs)"
proof -
  have "P y" if "fst (try_except m hs s) = Ret y" for s y
  proof (cases "m s")
    case (Pair r s1)
    show ?thesis
    proof (cases r)
      case (Ret x)
      with Pair that have "fst (m s) = Ret y" by (simp add: try_except_def)
      then show ?thesis by (rule returnsD[OF assms(1)])
    next
      case (Raise e)
      with Pair that have "fst (handle hs e s1) = Ret y" by (simp add: try_except_def)
      then show ?thesis by (rule returnsD[OF assms(2)])
    qed
  qed
  then show ?thesis by (simp add: returns_def)
qed

lemma returns_handle1:
  assumes "\<And>e. returns P (h e)"
  shows "returns P (handle [(c, h)] e)"
  using assms by (simp add: returns_raise)

lemma returns_handle2:
  assumes "\<And>e. returns P (h e)" and "\<And>e. returns P (h' e)"
  shows "returns P (handle [(c, h), (c', h')] e)"
  using assms by (simp add: returns_raise)

lemma returns_try_finally:
  assumes "returns P m"
  shows "returns P (try_finally m fin)"
proof -
  have "P y" if "fst (try_finally m fin s) = Ret y" for s y
  proof (cases "m s")
    case (Pair r s1)
    with that have "r = Ret y"
      by (auto simp add: try_finally_def split: prod.splits res.splits)
    with Pair show ?thesis using returnsD[OF assms, of s y] by simp
  qed
  then show ?thesis by (simp add: returns_def)
qed

lemma returns_async_with:
  assumes "\<And>x. returns P (body x)"
  shows "returns P (async_with enter exit_cm body)"
proof -
  have "P y" if "fst (async_with enter exit_cm body s) = Ret y" for s y
  proof (cases "enter s")
    case (Pair r s1)
    show ?thesis
    proof (cases r)
      case (Raise e)
      with Pair that show ?thesis by (simp add: async_with_def bind_def)
    next
      case (Ret x)
      obtain r2 s2 where b: "body x s1 = (r2, s2)" by (cases "body x s1")
      with Pair Ret that have "r2 = Ret y"
        by (auto simp add: async_with_def bind_def split: prod.splits res.splits)
      with b show ?thesis using returnsD[OF assms, of x s1 y] by simp
    qed
  qed
  then show ?thesis by (simp add: returns_def)
qed

lemma returns_wait_for: "returns P m \<Longrightarrow> returns P (wait_for w m)"
  by (auto simp add: returns_def wait_for_def split: prod.splits res.splits if_splits)
    (metis fst_conv)

lemma returns_query_round_trip:
  "returns (\<lambda>r. \<exists>reply. database_arun w (db_prompt hp user_message sp) = Ret (Some reply) \<and>
                r = mk_result (strip reply) ''success'')
     (query_round_trip w user_message hp sp sess)"
  unfolding query_round_trip_def
  by (intro returns_bind returns_bind_call returns_bind_content_strip returns_return) simp

lemma returns_session_scope:
  "returns (\<lambda>r. \<exists>reply. database_arun w (db_prompt hp user_message sp) = Ret (Some reply) \<and>
                r = mk_result (strip reply) ''success'')
     (session_scope w user_message hp sp)"
  unfolding session_scope_def
  by (intro returns_async_with returns_query_round_trip)

lemma valid_status_mk_result:
  "valid_status (mk_result r ''success'')"
  "valid_status (mk_result r ''clarification'')"
  "valid_status (mk_result r ''error'')"
  by (simp_all add: valid_status_def mk_result_def)

lemma returns_weaken: "returns P m \<Longrightarrow> (\<And>x. P x \<Longrightarrow> P' x) \<Longrightarrow> returns P' m"
  by (auto simp add: returns_def)

lemma returns_query_database:
  "returns valid_status (query_database w user_message hp sp)"
  unfolding query_database_def query_error_def
  by (intro returns_bind returns_try_finally returns_try_except returns_handle1
      returns_return returns_weaken[OF returns_session_scope])
    (auto simp add: valid_status_mk_result)

lemma returns_process_chat_message:
  "returns valid_status (process_chat_message w user_message conversation_history)"
proof (cases "missing_variables w = []")
  case False
  then show ?thesis
    by (simp add: process_chat_message_def returns_return valid_status_mk_result)
next
  case True
  have "returns valid_status
     (if response_content = [] \<or> CHR ''?'' \<in> set response_content then
          return (mk_result
            (if response_content = [] then ''Could you describe your symptoms?''
             else response_content)
            ''clarification'')
        else
          query_database w user_message history_prompt response_content)"
    for response_content history_prompt
    by (simp add: returns_return returns_query_database valid_status_mk_result)
  with True show ?thesis
    unfolding process_chat_message_def
    by (simp only: if_False not_True_eq_False simp_thms) (intro returns_bind)
qed

lemma returns_process_user_message_async:
  "returns valid_status (process_user_message_async w user_message conversation_history)"
  unfolding process_user_message_async_def
  by (auto intro!: returns_return returns_try_except returns_handle2 returns_wait_for
      returns_process_chat_message simp add: valid_status_mk_result)

text \<open>
  Claim C7. Whatever \<open>process_chat_message\<close> or its hosted wrapper
  \<open>process_user_message_async\<close> returns has a status field, and its value is one of
  \<^verbatim>\<open>success\<close>, \<^verbatim>\<open>clarification\<close> and \<^verbatim>\<open>error\<close>.
\<close>

theorem status_is_one_of_three:
  "(fst (process_chat_message w user_message conversation_history s) = Ret r \<longrightarrow>
      map_of r ''status'' \<in> {Some ''success'', Some ''clarification'', Some ''error''}) \<and>
   (fst (process_user_message_async w user_message conversation_history s) = Ret r' \<longrightarrow>
      map_of r' ''status'' \<in> {Some ''success'', Some ''clarification'', Some ''error''})"
  using returnsD[OF returns_process_chat_message, of w user_message conversation_history s r]
    returnsD[OF returns_process_user_message_async, of w user_message conversation_history s r']
  by (simp add: valid_status_def)

lemmas program_defs =
  process_chat_message_def query_database_def session_scope_def query_round_trip_def
  query_error_def create_symptom_analyzer_def create_database_agent_def openai_model_def
  cleanup_def close_session_def history_prompt_of_def content_strip_def set_session_def
  new_db_agent_def DatabaseAgent_init_def mk_result_def

lemma strip_found:
  "strip '' Found consultants: [Dr. Perera - Cardiology]'' =
     ''Found consultants: [Dr. Perera - Cardiology]''"
  by (simp add: strip_def isspace_def)

lemma process_chat_message_world_ok:
  "fst (process_chat_message world_ok ''I have chest pain'' 0 state0) =
     Ret [(''response'', ''Found consultants: [Dr. Perera - Cardiology]''),
          (''status'', ''success'')]"
  by (simp add: program_defs run_simps world_ok_simps strip_specialties strip_found)

lemma strip_message: "strip ''I have chest pain'' = ''I have chest pain''"
  by (simp add: strip_def isspace_def)

lemma wrapper_Ret:
  assumes "fst (process_chat_message w user_message conversation_history s) = Ret r"
    and "strip user_message \<noteq> []"
  shows "fst (process_user_message_async w user_message conversation_history s) = Ret r"
  using assms
  by (cases "process_chat_message w user_message conversation_history s")
    (simp add: process_user_message_async_def wait_for_def try_except_def)

theorem status_is_one_of_three_witness:
  "fst (process_chat_message world_ok ''I have chest pain'' 0 state0) =
     Ret [(''response'', ''Found consultants: [Dr. Perera - Cardiology]''),
          (''status'', ''success'')] \<and>
   fst (process_user_message_async world_ok ''I have chest pain'' 0 state0) =
     Ret [(''response'', ''Found consultants: [Dr. Perera - Cardiology]''),
          (''status'', ''success'')] \<and>
   map_of [(''response'', ''Found consultants: [Dr. Perera - Cardiology]''),
           (''status'', ''success'')] ''status''
     \<in> {Some ''success'', Some ''clarification'', Some ''error''}"
proof -
  have a: "fst (process_chat_message world_ok ''I have chest pain'' 0 state0) =
     Ret [(''response'', ''Found consultants: [Dr. Perera - Cardiology]''),
          (''status'', ''success'')]"
    by (rule process_chat_message_world_ok)
  have b: "fst (process_user_message_async world_ok ''I have chest pain'' 0 state0) =
     Ret [(''response'', ''Found consultants: [Dr. Perera - Cardiology]''),
          (''status'', ''success'')]"
    using a by (rule wrapper_Ret) (simp add: strip_message)
  show ?thesis
    using a b
      status_is_one_of_three [of world_ok "''I have chest pain''" 0 state0
        "[(''response'', ''Found consultants: [Dr. Perera - Cardiology]''),
          (''status'', ''success'')]"
        "[(''response'', ''Found consultants: [Dr. Perera - Cardiology]''),
          (''status'', ''success'')]"]
    by simp
qed

section \<open>Outcomes that do not depend on the state\<close>


















section \<open>The query stage\<close>













section \<open>The status of a query that succeeds\<close>






end
